theory Spec2Isabelle
  imports Main "HOL-Library.Word"
begin

unbundle bit_operations_syntax

section \<open>The Prometheus receiver's transaction (receiver/prometheusreceiver/internal/transaction.go)\<close>

subsection \<open>Values, labels and errors\<close>

text \<open>
  A Go \<open>float64\<close> is kept as its IEEE-754 bit pattern (\<open>math.Float64bits\<close>), so that the
  stale marker, an ordinary NaN and the two zeros are distinct, exact values.
  Sample timestamps (\<open>int64\<close> milliseconds) are only copied and compared with 0, never
  computed with; they are integers.
\<close>

type_synonym float64 = "64 word"
type_synonym label = "string \<times> string"
type_synonym labels = "label list"
type_synonym SeriesRef = "64 word"

text \<open>
  The four error values declared at the top of transaction.go, the builder's
  \<open>errNoDataToBuild\<close> that Commit's comment names, \<open>storage.ErrNotFound\<close>, any other
  error handed back by a collaborator (metadata service, builder, sink), and a Go
  run-time panic.
\<close>

datatype error =
    errMetricNameNotFound
  | errTransactionAborted
  | errNoJobInstance
  | errNoStartTimeMetrics
  | errNoDataToBuild
  | ErrNotFound
  | errCollaborator string
  | panicNilDereference

text \<open>\<open>labels.Labels.Get\<close>: the value of the first label of that name, the empty string if none.\<close>

fun labels_Get :: "labels \<Rightarrow> string \<Rightarrow> string" where
  "labels_Get [] name = ''''"
| "labels_Get ((n, v) # ls) name = (if n = name then v else labels_Get ls name)"

definition JobLabel :: string where "JobLabel = ''job''"
definition InstanceLabel :: string where "InstanceLabel = ''instance''"
definition SchemeLabel :: string where "SchemeLabel = ''__scheme__''"

definition portAttr :: string where "portAttr = ''port''"
definition schemeAttr :: string where "schemeAttr = ''scheme''"
definition jobAttr :: string where "jobAttr = ''job''"
definition instanceAttr :: string where "instanceAttr = ''instance''"

text \<open>\<open>ctx.Done()\<close> is either still open or already closed when Append looks at it.\<close>

datatype Context = ctxActive | ctxCancelled

fun Done :: "Context \<Rightarrow> bool" where
  "Done ctxActive = False"
| "Done ctxCancelled = True"

subsection \<open>OpenCensus metrics (metricspb), as far as transaction.go reads and writes them\<close>

datatype MetricDescriptor_Type =
    UNSPECIFIED
  | GAUGE_INT64
  | GAUGE_DOUBLE
  | GAUGE_DISTRIBUTION
  | CUMULATIVE_INT64
  | CUMULATIVE_DOUBLE
  | CUMULATIVE_DISTRIBUTION
  | SUMMARY

record Timestamp =
  Seconds :: "64 word"
  Nanos :: "32 word"

record MetricDescriptor =
  md_Name :: string
  md_Type :: MetricDescriptor_Type

record 'pt TimeSeries =
  StartTimestamp :: "Timestamp option"
  LabelValues :: "string list"
  Points :: "'pt list"

record 'pt OCMetric =
  MetricDescriptor :: "MetricDescriptor option"
  Timeseries :: "'pt TimeSeries list"

text \<open>The generated getters are nil-safe: a missing descriptor has type UNSPECIFIED.\<close>

definition GetType :: "MetricDescriptor option \<Rightarrow> MetricDescriptor_Type" where
  "GetType d = (case d of None \<Rightarrow> UNSPECIFIED | Some x \<Rightarrow> md_Type x)"

record Node =
  ServiceInfo_Name :: string
  Identifier_HostName :: "string option"

record Resource =
  Labels :: "(string \<times> string) list"

subsection \<open>Go's float64 arithmetic on bit patterns\<close>

text \<open>
  \<open>timestampFromFloat64\<close> converts, subtracts and multiplies float64 values. These are
  IEEE-754 binary64 operations with round-to-nearest-even, written here on the bit
  pattern: a finite value is \<open>\<plusminus> significand * 2 ^ scale\<close>. A conversion to
  \<open>int64\<close> of a value that int64 cannot represent (NaN, an infinity, a magnitude of
  \<open>2 ^ 63\<close> or more) is implementation-dependent in Go; its result is the parameter
  \<open>unrepresentable\<close>. A NaN result is the canonical quiet NaN.
\<close>

definition f64_sign :: "float64 \<Rightarrow> bool" where
  "f64_sign x = bit x 63"

definition f64_exponent :: "float64 \<Rightarrow> int" where
  "f64_exponent x = uint (drop_bit 52 x AND 0x7FF)"

definition f64_fraction :: "float64 \<Rightarrow> int" where
  "f64_fraction x = uint (x AND 0xFFFFFFFFFFFFF)"

definition f64_is_nan :: "float64 \<Rightarrow> bool" where
  "f64_is_nan x = (f64_exponent x = 2047 \<and> f64_fraction x \<noteq> 0)"

definition f64_is_inf :: "float64 \<Rightarrow> bool" where
  "f64_is_inf x = (f64_exponent x = 2047 \<and> f64_fraction x = 0)"

definition f64_significand :: "float64 \<Rightarrow> int" where
  "f64_significand x = (if f64_exponent x = 0 then f64_fraction x else 2 ^ 52 + f64_fraction x)"

definition f64_scale :: "float64 \<Rightarrow> int" where
  "f64_scale x = (if f64_exponent x = 0 then - 1074 else f64_exponent x - 1075)"

definition f64_signed_significand :: "float64 \<Rightarrow> int" where
  "f64_signed_significand x = (if f64_sign x then - f64_significand x else f64_significand x)"

definition f64_NaN :: float64 where "f64_NaN = 0x7FF8000000000000"
definition f64_Inf :: float64 where "f64_Inf = 0x7FF0000000000000"
definition f64_signbit :: float64 where "f64_signbit = 0x8000000000000000"

text \<open>The comparison \<open>x == 0.0\<close>: true of both zeros, false of everything else.\<close>

definition f64_is_zero :: "float64 \<Rightarrow> bool" where
  "f64_is_zero x = (x = 0 \<or> x = f64_signbit)"

text \<open>The number of binary digits of a positive integer.\<close>

function bit_length :: "int \<Rightarrow> int" where
  "bit_length n = (if n \<le> 0 then 0 else 1 + bit_length (n div 2))"
  by pat_completeness auto
termination
  by (relation "measure nat") auto

declare bit_length.simps [simp del]

definition round_half_even :: "int \<Rightarrow> nat \<Rightarrow> int" where
  "round_half_even a d =
     (let q = a div 2 ^ d; r = a mod 2 ^ d; h = 2 ^ (d - 1)
      in if d = 0 then a else if r > h \<or> (r = h \<and> odd q) then q + 1 else q)"

text \<open>
  The binary64 nearest to \<open>\<plusminus> a * 2 ^ e\<close> (\<open>a > 0\<close>): the significand is cut to 53 bits
  (fewer for a subnormal), a carry out of the rounding moves into the exponent field,
  and a result beyond the largest finite value is an infinity.
\<close>

definition f64_round :: "bool \<Rightarrow> int \<Rightarrow> int \<Rightarrow> float64" where
  "f64_round neg a e =
     (let e' = max (e + bit_length a - 53) (- 1074);
          q = (if e' \<le> e then a * 2 ^ nat (e - e') else round_half_even a (nat (e' - e)));
          magnitude = (e' + 1074) * 2 ^ 52 + q;
          w = (if magnitude \<ge> 0x7FF0000000000000 then f64_Inf else word_of_int magnitude)
      in if neg then w OR f64_signbit else w)"

definition f64_sub :: "float64 \<Rightarrow> float64 \<Rightarrow> float64" where
  "f64_sub x y =
     (if f64_is_nan x \<or> f64_is_nan y then f64_NaN
      else if f64_is_inf x then (if f64_is_inf y \<and> f64_sign x = f64_sign y then f64_NaN else x)
      else if f64_is_inf y then y XOR f64_signbit
      else
        let e = min (f64_scale x) (f64_scale y);
            d = f64_signed_significand x * 2 ^ nat (f64_scale x - e)
              - f64_signed_significand y * 2 ^ nat (f64_scale y - e)
        in if d = 0 then (if f64_sign x \<and> \<not> f64_sign y then f64_signbit else 0)
           else f64_round (d < 0) \<bar>d\<bar> e)"

definition f64_mul :: "float64 \<Rightarrow> float64 \<Rightarrow> float64" where
  "f64_mul x y =
     (let s = (if f64_sign x \<noteq> f64_sign y then f64_signbit else 0)
      in if f64_is_nan x \<or> f64_is_nan y then f64_NaN
         else if f64_is_inf x \<or> f64_is_inf y then
           (if (\<not> f64_is_inf x \<and> f64_significand x = 0)
                \<or> (\<not> f64_is_inf y \<and> f64_significand y = 0)
            then f64_NaN else f64_Inf OR s)
         else if f64_significand x = 0 \<or> f64_significand y = 0 then s
         else f64_round (f64_sign x \<noteq> f64_sign y) (f64_significand x * f64_significand y)
                (f64_scale x + f64_scale y))"

definition f64_of_int64 :: "64 word \<Rightarrow> float64" where
  "f64_of_int64 n = (if n = 0 then 0 else f64_round (sint n < 0) \<bar>sint n\<bar> 0)"

definition f64_to_int64 :: "(float64 \<Rightarrow> 64 word) \<Rightarrow> float64 \<Rightarrow> 64 word" where
  "f64_to_int64 unrepresentable x =
     (if f64_exponent x = 2047 then unrepresentable x
      else
        let m = f64_significand x; e = f64_scale x;
            t = (if 0 \<le> e then m * 2 ^ nat e else m div 2 ^ nat (- e));
            i = (if f64_sign x then - t else t)
        in if - (2 ^ 63) \<le> i \<and> i < 2 ^ 63 then word_of_int i else unrepresentable x)"

definition f64_1e9 :: float64 where "f64_1e9 = 0x41CDCD6500000000"

subsection \<open>Start-time stamping\<close>

definition timestampFromFloat64 :: "(float64 \<Rightarrow> 64 word) \<Rightarrow> float64 \<Rightarrow> Timestamp" where
  "timestampFromFloat64 unrepresentable ts =
     (let secs = f64_to_int64 unrepresentable ts;
          nanos = f64_to_int64 unrepresentable (f64_mul (f64_sub ts (f64_of_int64 secs)) f64_1e9)
      in \<lparr>Seconds = secs, Nanos = ucast nanos\<rparr>)"

text \<open>
  The two loops of \<open>adjustStartTimestamp\<close> run over slices of pointers and write through
  them; the model returns the rewritten slices. The slices hold the builder's own
  non-nil messages.
\<close>

fun stampTimeseries :: "Timestamp \<Rightarrow> 'pt TimeSeries list \<Rightarrow> 'pt TimeSeries list" where
  "stampTimeseries startTimeTs [] = []"
| "stampTimeseries startTimeTs (ts # rest) =
     ts\<lparr>StartTimestamp := Some startTimeTs\<rparr> # stampTimeseries startTimeTs rest"

fun stampMetrics :: "Timestamp \<Rightarrow> 'pt OCMetric list \<Rightarrow> 'pt OCMetric list" where
  "stampMetrics startTimeTs [] = []"
| "stampMetrics startTimeTs (metric # rest) =
     (case GetType (MetricDescriptor metric) of
        GAUGE_DOUBLE \<Rightarrow> metric
      | GAUGE_DISTRIBUTION \<Rightarrow> metric
      | _ \<Rightarrow> metric\<lparr>Timeseries := stampTimeseries startTimeTs (Timeseries metric)\<rparr>)
     # stampMetrics startTimeTs rest"

definition adjustStartTimestamp ::
  "(float64 \<Rightarrow> 64 word) \<Rightarrow> float64 \<Rightarrow> 'pt OCMetric list \<Rightarrow> 'pt OCMetric list" where
  "adjustStartTimestamp unrepresentable startTime metrics =
     (let startTimeTs = timestampFromFloat64 unrepresentable startTime
      in stampMetrics startTimeTs metrics)"

subsection \<open>The pdata batch, as far as transaction.go reads and writes it\<close>

datatype NumberValue = ValueNone | AsDouble float64 | AsInt "64 word"

record NumberDataPoint =
  Attributes_n :: labels
  StartTimestamp_n :: "64 word"
  Timestamp_n :: "64 word"
  Value_n :: NumberValue
  Flags_n :: "32 word"

record HistogramDataPoint =
  Attributes_h :: labels
  StartTimestamp_h :: "64 word"
  Timestamp_h :: "64 word"
  Count_h :: "64 word"
  Sum_h :: float64
  BucketCounts_h :: "64 word list"
  ExplicitBounds_h :: "float64 list"
  Flags_h :: "32 word"

record SummaryDataPoint =
  Attributes_s :: labels
  StartTimestamp_s :: "64 word"
  Timestamp_s :: "64 word"
  Count_s :: "64 word"
  Sum_s :: float64
  QuantileValues_s :: "(float64 \<times> float64) list"
  Flags_s :: "32 word"

text \<open>
  \<open>metric.DataType()\<close> with the data it selects. An exponential histogram is never
  looked into by this package; only the number of its points is kept.
\<close>

datatype MetricData =
    MetricDataTypeNone
  | MetricDataTypeGauge "NumberDataPoint list"
  | MetricDataTypeSum "NumberDataPoint list"
  | MetricDataTypeHistogram "HistogramDataPoint list"
  | MetricDataTypeExponentialHistogram nat
  | MetricDataTypeSummary "SummaryDataPoint list"

record PMetric =
  Name_m :: string
  Data_m :: MetricData

record InstrumentationLibraryMetrics =
  Metrics :: "PMetric list"

record ResourceMetrics =
  Attributes_r :: labels
  InstrumentationLibraryMetrics :: "InstrumentationLibraryMetrics list"

text \<open>A batch built by \<open>OCToMetrics\<close>: the slice behind \<open>md.ResourceMetrics()\<close>.\<close>

type_synonym pdata_Metrics = "ResourceMetrics list"

text \<open>\<open>DoubleVal()\<close> is 0 when the point holds an integer or nothing.\<close>

definition DoubleVal :: "NumberDataPoint \<Rightarrow> float64" where
  "DoubleVal dp = (case Value_n dp of AsDouble x \<Rightarrow> x | _ \<Rightarrow> 0)"

definition SetDoubleVal :: "float64 \<Rightarrow> NumberDataPoint \<Rightarrow> NumberDataPoint" where
  "SetDoubleVal v dp = dp\<lparr>Value_n := AsDouble v\<rparr>"

fun pointCount :: "MetricData \<Rightarrow> nat" where
  "pointCount MetricDataTypeNone = 0"
| "pointCount (MetricDataTypeGauge dps) = length dps"
| "pointCount (MetricDataTypeSum dps) = length dps"
| "pointCount (MetricDataTypeHistogram dps) = length dps"
| "pointCount (MetricDataTypeExponentialHistogram n) = n"
| "pointCount (MetricDataTypeSummary dps) = length dps"

definition DataPointCount :: "pdata_Metrics \<Rightarrow> nat" where
  "DataPointCount md =
     sum_list (map (\<lambda>rm. sum_list (map (\<lambda>ilm. sum_list (map (\<lambda>m. pointCount (Data_m m)) (Metrics ilm)))
                                      (InstrumentationLibraryMetrics rm))) md)"

subsection \<open>The staleness fixer\<close>

text \<open>
  \<open>value.IsStaleNaN\<close> of the Prometheus library compares the bit pattern with the one
  reserved stale marker; \<open>NormalNaN\<close> is the library's ordinary NaN.
\<close>

definition StaleNaN :: float64 where "StaleNaN = 0x7FF0000000000002"
definition NormalNaN :: float64 where "NormalNaN = 0x7FF8000000000001"

definition IsStaleNaN :: "float64 \<Rightarrow> bool" where
  "IsStaleNaN v = (v = StaleNaN)"

text \<open>
  Modelled from the spec: \<open>pdataStaleFlags\<close> is declared in another file of the package;
  it is the explicit "stale" flag of a data point, the flag set whose only member is
  pdata's no-recorded-value bit.
\<close>

definition pdataStaleFlags :: "32 word" where
  "pdataStaleFlags = 1"

text \<open>
  Every loop of the fixer is \<open>for i := 0; i < xs.Len(); i++\<close> with a body that
  rewrites the element \<open>xs.At(i)\<close> in place.
\<close>

function for_At :: "('a \<Rightarrow> 'a) \<Rightarrow> nat \<Rightarrow> 'a list \<Rightarrow> 'a list" where
  "for_At body i xs = (if i < length xs then for_At body (Suc i) (xs[i := body (xs ! i)]) else xs)"
  by pat_completeness auto
termination
  by (relation "measure (\<lambda>(body, i, xs). length xs - i)") auto

declare for_At.simps [simp del]

definition fixStaleHistogram :: "HistogramDataPoint list \<Rightarrow> HistogramDataPoint list" where
  "fixStaleHistogram hist =
     for_At (\<lambda>dp. if IsStaleNaN (Sum_h dp)
                   then dp\<lparr>Flags_h := pdataStaleFlags, Count_h := 0, Sum_h := 0,
                           BucketCounts_h := [], ExplicitBounds_h := []\<rparr>
                   else dp) 0 hist"

definition fixStaleSummary :: "SummaryDataPoint list \<Rightarrow> SummaryDataPoint list" where
  "fixStaleSummary sum_dps =
     for_At (\<lambda>dp. if IsStaleNaN (Sum_s dp)
                   then dp\<lparr>Flags_s := pdataStaleFlags, Count_s := 0, Sum_s := 0,
                           QuantileValues_s := filter (\<lambda>_. \<not> True) (QuantileValues_s dp)\<rparr>
                   else dp) 0 sum_dps"

definition fixStaleSum :: "NumberDataPoint list \<Rightarrow> NumberDataPoint list" where
  "fixStaleSum sum_dps =
     for_At (\<lambda>dp. if IsStaleNaN (DoubleVal dp)
                   then SetDoubleVal 0 (dp\<lparr>Flags_n := pdataStaleFlags\<rparr>)
                   else dp) 0 sum_dps"

definition fixStaleGauge :: "NumberDataPoint list \<Rightarrow> NumberDataPoint list" where
  "fixStaleGauge gauge =
     for_At (\<lambda>dp. if IsStaleNaN (DoubleVal dp)
                   then SetDoubleVal 0 (dp\<lparr>Flags_n := pdataStaleFlags\<rparr>)
                   else dp) 0 gauge"

definition fixStaleMetric :: "PMetric \<Rightarrow> PMetric" where
  "fixStaleMetric metric =
     (case Data_m metric of
        MetricDataTypeHistogram h \<Rightarrow> metric\<lparr>Data_m := MetricDataTypeHistogram (fixStaleHistogram h)\<rparr>
      | MetricDataTypeSummary s \<Rightarrow> metric\<lparr>Data_m := MetricDataTypeSummary (fixStaleSummary s)\<rparr>
      | MetricDataTypeSum s \<Rightarrow> metric\<lparr>Data_m := MetricDataTypeSum (fixStaleSum s)\<rparr>
      | MetricDataTypeGauge g \<Rightarrow> metric\<lparr>Data_m := MetricDataTypeGauge (fixStaleGauge g)\<rparr>
      | _ \<Rightarrow> metric)"

definition fixStaleMetrics :: "pdata_Metrics \<Rightarrow> pdata_Metrics" where
  "fixStaleMetrics md =
     for_At (\<lambda>rm. rm\<lparr>InstrumentationLibraryMetrics :=
               for_At (\<lambda>ilm. ilm\<lparr>Metrics := for_At fixStaleMetric 0 (Metrics ilm)\<rparr>)
                 0 (InstrumentationLibraryMetrics rm)\<rparr>) 0 md"

subsection \<open>The transaction and its collaborators\<close>

text \<open>
  What a call of Append or Commit does to the outside, in the order the source does it:
  the metadata lookup, the calls into the builder, the observability report
  (\<open>obsrecv.StartMetricsOp\<close>, \<open>obsrecv.EndMetricsOp\<close> with the number of points and the
  error), the passes over the batch and the hand-over to the sink.
\<close>

datatype event =
    EvMetadataGet string string
  | EvNewMetricBuilder
  | EvAddDataPoint labels int float64
  | EvStartMetricsOp
  | EvBuild
  | EvAdjustStartTimestamp
  | EvOCToMetrics
  | EvFixStaleMetrics
  | EvAdjustMetrics
  | EvConsumeMetrics "pdata_Metrics option"
  | EvEndMetricsOp nat "error option"

text \<open>
  The functions transaction.go calls and this file does not define: the standard
  library's \<open>net.SplitHostPort\<close>, the package's \<open>isDiscernibleHost\<close>, the metadata cache,
  the metric builder (\<open>newMetricBuilder\<close>, \<open>AddDataPoint\<close>, \<open>Build\<close>, its field
  \<open>startTime\<close>), the OpenCensus translator and the JobsMap adjuster
  (\<open>NewMetricsAdjusterPdata(tr.jobsMap.get(job, instance), logger).AdjustMetrics(&md)\<close>,
  which rewrites the batch and the map; \<open>Inl\<close> is a panic). They are parameters:
  \<open>'b\<close> is the builder's state, \<open>'jm\<close> the JobsMap's, \<open>'mc\<close> a metadata cache,
  \<open>'pt\<close> an OpenCensus point. \<open>int64_unrepresentable\<close> is Go's implementation-dependent
  float-to-integer conversion.
\<close>

record ('b, 'jm, 'mc, 'pt) collaborators =
  SplitHostPort :: "string \<Rightarrow> error + (string \<times> string)"
  isDiscernibleHost :: "string \<Rightarrow> bool"
  SharedLabels :: "'mc \<Rightarrow> labels"
  newMetricBuilder :: "'mc \<Rightarrow> bool \<Rightarrow> string \<Rightarrow> int \<Rightarrow> 'b"
  AddDataPoint :: "'b \<Rightarrow> labels \<Rightarrow> int \<Rightarrow> float64 \<Rightarrow> 'b \<times> error option"
  Build :: "'b \<Rightarrow> 'b \<times> (error + 'pt OCMetric list)"
  startTime :: "'b \<Rightarrow> float64"
  OCToMetrics :: "Node option \<Rightarrow> Resource option \<Rightarrow> 'pt OCMetric list \<Rightarrow> pdata_Metrics"
  AdjustMetrics :: "'jm option \<Rightarrow> string \<Rightarrow> string \<Rightarrow> pdata_Metrics option
                      \<Rightarrow> error + ('jm option \<times> pdata_Metrics option)"
  int64_unrepresentable :: "float64 \<Rightarrow> 64 word"

text \<open>
  The struct \<open>transaction\<close>. \<open>sink\<close> is the result of \<open>sink.ConsumeMetrics\<close> on a batch,
  \<open>ms\<close> the result of \<open>ms.Get\<close>; a nil pointer is \<open>None\<close>. The batch variable
  \<open>md\<close> of Commit is \<open>None\<close> while it is the zero \<open>pdata.Metrics\<close>. The logger and the
  obsreport receiver hold no state that the transaction reads.
\<close>

record ('b, 'jm, 'mc) transaction =
  id_tr :: "64 word"
  ctx :: Context
  isNew :: bool
  sink :: "pdata_Metrics option \<Rightarrow> error option"
  job :: string
  instance_tr :: string
  jobsMap :: "'jm option"
  useStartTimeMetric :: bool
  startTimeMetricRegex :: string
  ms :: "string \<Rightarrow> string \<Rightarrow> error + 'mc"
  node :: "Node option"
  resource :: "Resource option"
  metricBuilder :: "'b option"
  externalLabels :: labels
  startTimeMs :: int

text \<open>\<open>newTransaction\<close> takes the next id from the global counter \<open>idSeq\<close> and returns the counter too.\<close>

definition newTransaction ::
  "64 word \<Rightarrow> Context \<Rightarrow> 'jm option \<Rightarrow> bool \<Rightarrow> string \<Rightarrow> (string \<Rightarrow> string \<Rightarrow> error + 'mc)
     \<Rightarrow> (pdata_Metrics option \<Rightarrow> error option) \<Rightarrow> labels \<Rightarrow> ('b, 'jm, 'mc) transaction \<times> 64 word" where
  "newTransaction idSeq ctx' jobsMap' useStartTimeMetric' startTimeMetricRegex' ms' sink' externalLabels' =
     (\<lparr>id_tr = idSeq + 1, ctx = ctx', isNew = True, sink = sink', job = '''', instance_tr = '''',
       jobsMap = jobsMap', useStartTimeMetric = useStartTimeMetric',
       startTimeMetricRegex = startTimeMetricRegex', ms = ms', node = None, resource = None,
       metricBuilder = None, externalLabels = externalLabels', startTimeMs = - 1\<rparr>,
      idSeq + 1)"

definition createNodeAndResource ::
  "('b, 'jm, 'mc, 'pt) collaborators \<Rightarrow> string \<Rightarrow> string \<Rightarrow> string \<Rightarrow> Node \<times> Resource" where
  "createNodeAndResource D job' instance' scheme =
     (let (host, port) = (case SplitHostPort D instance' of
                            Inl err \<Rightarrow> (instance', '''')
                          | Inr (h, p) \<Rightarrow> (h, p));
          node' = \<lparr>ServiceInfo_Name = job',
                   Identifier_HostName = (if isDiscernibleHost D host then Some host else None)\<rparr>;
          resource' = \<lparr>Labels = [(jobAttr, job'), (instanceAttr, instance'),
                                  (portAttr, port), (schemeAttr, scheme)]\<rparr>
      in (node', resource'))"

definition initTransaction ::
  "('b, 'jm, 'mc, 'pt) collaborators \<Rightarrow> ('b, 'jm, 'mc) transaction \<Rightarrow> labels
     \<Rightarrow> ('b, 'jm, 'mc) transaction \<times> event list \<times> error option" where
  "initTransaction D tr ls =
     (let job' = labels_Get ls JobLabel; instance' = labels_Get ls InstanceLabel
      in if job' = '''' \<or> instance' = '''' then (tr, [], Some errNoJobInstance)
         else
           case ms tr job' instance' of
             Inl err \<Rightarrow> (tr, [EvMetadataGet job' instance'], Some err)
           | Inr mc \<Rightarrow>
               let tr1 = (if jobsMap tr \<noteq> None then tr\<lparr>job := job', instance_tr := instance'\<rparr> else tr);
                   (node', resource') =
                      createNodeAndResource D job' instance' (labels_Get (SharedLabels D mc) SchemeLabel);
                   tr2 = tr1\<lparr>node := Some node', resource := Some resource'\<rparr>;
                   tr3 = tr2\<lparr>metricBuilder :=
                            Some (newMetricBuilder D mc (useStartTimeMetric tr2)
                                    (startTimeMetricRegex tr2) (startTimeMs tr2))\<rparr>
               in (tr3\<lparr>isNew := False\<rparr>, [EvMetadataGet job' instance', EvNewMetricBuilder], None))"

text \<open>
  Append. A method call on the nil builder (reached only if a transaction was put
  together by hand with \<open>isNew\<close> false and no builder) is the panic.
\<close>

definition Append ::
  "('b, 'jm, 'mc, 'pt) collaborators \<Rightarrow> ('b, 'jm, 'mc) transaction \<Rightarrow> SeriesRef \<Rightarrow> labels \<Rightarrow> int
     \<Rightarrow> float64 \<Rightarrow> ('b, 'jm, 'mc) transaction \<times> event list \<times> SeriesRef \<times> error option" where
  "Append D tr ref ls t v =
     (let tr1 = (if startTimeMs tr < 0 then tr\<lparr>startTimeMs := t\<rparr> else tr)
      in if Done (ctx tr1) then (tr1, [], 0, Some errTransactionAborted)
         else
           let ls1 = (if length (externalLabels tr1) > 0 then ls @ externalLabels tr1 else ls)
           in case (if isNew tr1 then initTransaction D tr1 ls1 else (tr1, [], None)) of
                (tr2, evs, Some err) \<Rightarrow> (tr2, evs, 0, Some err)
              | (tr2, evs, None) \<Rightarrow>
                  (case metricBuilder tr2 of
                     None \<Rightarrow> (tr2, evs, 0, Some panicNilDereference)
                   | Some b \<Rightarrow>
                       (case AddDataPoint D b ls1 t v of
                          (b', r) \<Rightarrow> (tr2\<lparr>metricBuilder := Some b'\<rparr>,
                                       evs @ [EvAddDataPoint ls1 t v], 0, r))))"

record Exemplar =
  Labels_e :: labels
  Value_e :: float64
  Ts_e :: int
  HasTs_e :: bool

definition AppendExemplar ::
  "('b, 'jm, 'mc) transaction \<Rightarrow> SeriesRef \<Rightarrow> labels \<Rightarrow> Exemplar
     \<Rightarrow> ('b, 'jm, 'mc) transaction \<times> event list \<times> SeriesRef \<times> error option" where
  "AppendExemplar tr ref l e = (tr, [], 0, None)"

definition AddFast ::
  "('b, 'jm, 'mc) transaction \<Rightarrow> 64 word \<Rightarrow> int \<Rightarrow> float64 \<Rightarrow> ('b, 'jm, 'mc) transaction \<times> error option" where
  "AddFast tr r t v = (tr, Some ErrNotFound)"

definition Rollback :: "('b, 'jm, 'mc) transaction \<Rightarrow> ('b, 'jm, 'mc) transaction \<times> error option" where
  "Rollback tr = (tr\<lparr>startTimeMs := - 1\<rparr>, None)"

text \<open>
  Commit, from \<open>numPoints := 0\<close> to its last line: translate and fix the batch if there
  are metrics, run the JobsMap adjuster unless the start-time metric is in use, hand a
  batch with points to the sink, report. \<open>evs\<close> is what Commit has done so far. A
  panic inside the adjuster ends Commit there.
\<close>

definition Commit_forward ::
  "('b, 'jm, 'mc, 'pt) collaborators \<Rightarrow> ('b, 'jm, 'mc) transaction \<Rightarrow> 'pt OCMetric list \<Rightarrow> event list
     \<Rightarrow> ('b, 'jm, 'mc) transaction \<times> event list \<times> error option" where
  "Commit_forward D tr metrics evs =
     (let (md, numPoints, evs1) =
            (if length metrics > 0
             then let md' = fixStaleMetrics (OCToMetrics D (node tr) (resource tr) metrics)
                  in (Some md', DataPointCount md', evs @ [EvOCToMetrics, EvFixStaleMetrics])
             else (None, 0, evs))
      in case (if \<not> useStartTimeMetric tr
               then (case AdjustMetrics D (jobsMap tr) (job tr) (instance_tr tr) md of
                       Inl p \<Rightarrow> Inl p
                     | Inr (jm, md') \<Rightarrow> Inr (tr\<lparr>jobsMap := jm\<rparr>, md', evs1 @ [EvAdjustMetrics]))
               else Inr (tr, md, evs1)) of
           Inl p \<Rightarrow> (tr, evs1 @ [EvAdjustMetrics], Some p)
         | Inr (tr', md', evs2) \<Rightarrow>
             let (err, evs3) = (if numPoints > 0
                                then (sink tr' md', evs2 @ [EvConsumeMetrics md'])
                                else (None, evs2))
             in (tr', evs3 @ [EvEndMetricsOp numPoints err], err))"

definition Commit ::
  "('b, 'jm, 'mc, 'pt) collaborators \<Rightarrow> ('b, 'jm, 'mc) transaction
     \<Rightarrow> ('b, 'jm, 'mc) transaction \<times> event list \<times> error option" where
  "Commit D tr =
     (if isNew tr then (tr, [], None)
      else
        let tr1 = tr\<lparr>startTimeMs := - 1\<rparr>
        in case metricBuilder tr1 of
             None \<Rightarrow> (tr1, [EvStartMetricsOp], Some panicNilDereference)
           | Some b0 \<Rightarrow>
               (case Build D b0 of
                  (b, Inl err) \<Rightarrow>
                    (tr1\<lparr>metricBuilder := Some b\<rparr>,
                     [EvStartMetricsOp, EvBuild, EvEndMetricsOp 0 (Some err)], Some err)
                | (b, Inr metrics) \<Rightarrow>
                    let tr2 = tr1\<lparr>metricBuilder := Some b\<rparr>
                    in if useStartTimeMetric tr2 then
                         if f64_is_zero (startTime D b) then
                           (tr2, [EvStartMetricsOp, EvBuild,
                                  EvEndMetricsOp 0 (Some errNoStartTimeMetrics)],
                            Some errNoStartTimeMetrics)
                         else
                           Commit_forward D tr2
                             (adjustStartTimestamp (int64_unrepresentable D) (startTime D b) metrics)
                             [EvStartMetricsOp, EvBuild, EvAdjustStartTimestamp]
                       else Commit_forward D tr2 metrics [EvStartMetricsOp, EvBuild]))"

subsection \<open>Sequences of Append calls\<close>

type_synonym sample = "labels \<times> int \<times> float64"

text \<open>The transaction after the calls, and the outcome of each call in turn.\<close>

fun Appends ::
  "('b, 'jm, 'mc, 'pt) collaborators \<Rightarrow> ('b, 'jm, 'mc) transaction \<Rightarrow> sample list
     \<Rightarrow> ('b, 'jm, 'mc) transaction" where
  "Appends D tr [] = tr"
| "Appends D tr ((ls, t, v) # rest) = Appends D (fst (Append D tr 0 ls t v)) rest"

fun Append_outcomes ::
  "('b, 'jm, 'mc, 'pt) collaborators \<Rightarrow> ('b, 'jm, 'mc) transaction \<Rightarrow> sample list
     \<Rightarrow> (('b, 'jm, 'mc) transaction \<times> event list \<times> SeriesRef \<times> error option) list" where
  "Append_outcomes D tr [] = []"
| "Append_outcomes D tr ((ls, t, v) # rest) =
     Append D tr 0 ls t v # Append_outcomes D (fst (Append D tr 0 ls t v)) rest"


fun isConsumeMetrics :: "event \<Rightarrow> bool" where
  "isConsumeMetrics (EvConsumeMetrics md) = True"
| "isConsumeMetrics _ = False"

fun isAdjustment :: "event \<Rightarrow> bool" where
  "isAdjustment EvAdjustStartTimestamp = True"
| "isAdjustment EvAdjustMetrics = True"
| "isAdjustment _ = False"

fun all_before :: "(event \<Rightarrow> bool) \<Rightarrow> (event \<Rightarrow> bool) \<Rightarrow> event list \<Rightarrow> bool" where
  "all_before P Q [] = True"
| "all_before P Q (e # es) = ((Q e \<longrightarrow> \<not> list_ex P es) \<and> all_before P Q es)"

subsection \<open>The staleness fixer's specification\<close>

text \<open>
  What the specification asks of the pass, point by point: a point whose value (its sum,
  for a histogram or a summary) is the stale marker comes out flagged and emptied, any
  other point comes out as it went in; a metric keeps its name and its kind, a batch
  its shape.
\<close>

definition spec_fixed_number :: "NumberDataPoint \<Rightarrow> NumberDataPoint \<Rightarrow> bool" where
  "spec_fixed_number dp dp' =
     (if DoubleVal dp = StaleNaN
      then dp' = dp\<lparr>Flags_n := pdataStaleFlags, Value_n := AsDouble 0\<rparr>
      else dp' = dp)"

definition spec_fixed_histogram :: "HistogramDataPoint \<Rightarrow> HistogramDataPoint \<Rightarrow> bool" where
  "spec_fixed_histogram dp dp' =
     (if Sum_h dp = StaleNaN
      then dp' = dp\<lparr>Flags_h := pdataStaleFlags, Count_h := 0, Sum_h := 0,
                     BucketCounts_h := [], ExplicitBounds_h := []\<rparr>
      else dp' = dp)"

definition spec_fixed_summary :: "SummaryDataPoint \<Rightarrow> SummaryDataPoint \<Rightarrow> bool" where
  "spec_fixed_summary dp dp' =
     (if Sum_s dp = StaleNaN
      then dp' = dp\<lparr>Flags_s := pdataStaleFlags, Count_s := 0, Sum_s := 0, QuantileValues_s := []\<rparr>
      else dp' = dp)"

fun spec_fixed_data :: "MetricData \<Rightarrow> MetricData \<Rightarrow> bool" where
  "spec_fixed_data (MetricDataTypeGauge g) (MetricDataTypeGauge g') = list_all2 spec_fixed_number g g'"
| "spec_fixed_data (MetricDataTypeSum s) (MetricDataTypeSum s') = list_all2 spec_fixed_number s s'"
| "spec_fixed_data (MetricDataTypeHistogram h) (MetricDataTypeHistogram h') =
     list_all2 spec_fixed_histogram h h'"
| "spec_fixed_data (MetricDataTypeSummary s) (MetricDataTypeSummary s') =
     list_all2 spec_fixed_summary s s'"
| "spec_fixed_data MetricDataTypeNone d' = (d' = MetricDataTypeNone)"
| "spec_fixed_data (MetricDataTypeExponentialHistogram n) d' = (d' = MetricDataTypeExponentialHistogram n)"
| "spec_fixed_data _ _ = False"

definition spec_fixed_metric :: "PMetric \<Rightarrow> PMetric \<Rightarrow> bool" where
  "spec_fixed_metric m m' = (Name_m m' = Name_m m \<and> spec_fixed_data (Data_m m) (Data_m m'))"

definition spec_fixed_batch :: "pdata_Metrics \<Rightarrow> pdata_Metrics \<Rightarrow> bool" where
  "spec_fixed_batch md md' =
     list_all2 (\<lambda>rm rm'. Attributes_r rm' = Attributes_r rm \<and>
                  list_all2 (\<lambda>ilm ilm'. list_all2 spec_fixed_metric (Metrics ilm) (Metrics ilm'))
                    (InstrumentationLibraryMetrics rm) (InstrumentationLibraryMetrics rm'))
       md md'"

subsection \<open>Reference collaborators\<close>

text \<open>
  The theorems below hold for every collaborator. To run the transaction on concrete
  inputs, this is one small instance of each.
\<close>

record ref_cache =
  rc_types :: "(string \<times> MetricDescriptor_Type) list"
  rc_sharedLabels :: labels

record ref_builder =
  rb_types :: "(string \<times> MetricDescriptor_Type) list"
  rb_useStartTimeMetric :: bool
  rb_startTimeMetricRegex :: string
  rb_startTime :: float64
  rb_intervalStartTimeMs :: int
  rb_points :: "sample list"

definition MetricNameLabel :: string where "MetricNameLabel = ''__name__''"

text \<open>
  Modelled from the spec: the metric builder (\<open>newMetricBuilder\<close>, \<open>AddDataPoint\<close>,
  \<open>Build\<close>) is not in transaction.go. A sample without a metric name "yields
  metric-name-not-found"; in start-time-metric mode the builder "looks for a specific
  metric name" and keeps its value as the start time; "Build() fails with
  no-data-to-build only when zero data points were accumulated". Here every accumulated
  sample becomes one metric with one timeseries, typed by the target's metadata, and
  the configured name is matched literally.
\<close>

definition ref_newMetricBuilder :: "ref_cache \<Rightarrow> bool \<Rightarrow> string \<Rightarrow> int \<Rightarrow> ref_builder" where
  "ref_newMetricBuilder mc useStartTimeMetric' startTimeMetricRegex' intervalStartTimeMs =
     \<lparr>rb_types = rc_types mc, rb_useStartTimeMetric = useStartTimeMetric',
      rb_startTimeMetricRegex = startTimeMetricRegex', rb_startTime = 0,
      rb_intervalStartTimeMs = intervalStartTimeMs, rb_points = []\<rparr>"

definition ref_AddDataPoint ::
  "ref_builder \<Rightarrow> labels \<Rightarrow> int \<Rightarrow> float64 \<Rightarrow> ref_builder \<times> error option" where
  "ref_AddDataPoint b ls t v =
     (let metricName = labels_Get ls MetricNameLabel
      in if metricName = '''' then (b, Some errMetricNameNotFound)
         else
           (b\<lparr>rb_startTime := (if rb_useStartTimeMetric b \<and> metricName = rb_startTimeMetricRegex b
                                 then v else rb_startTime b),
              rb_points := rb_points b @ [(ls, t, v)]\<rparr>, None))"

definition ref_metric :: "(string \<times> MetricDescriptor_Type) list \<Rightarrow> sample \<Rightarrow> (int \<times> float64) OCMetric" where
  "ref_metric types s =
     (case s of (ls, t, v) \<Rightarrow>
        \<lparr>MetricDescriptor =
           Some \<lparr>md_Name = labels_Get ls MetricNameLabel,
                 md_Type = (case map_of types (labels_Get ls MetricNameLabel) of
                              None \<Rightarrow> UNSPECIFIED | Some ty \<Rightarrow> ty)\<rparr>,
         Timeseries = [\<lparr>StartTimestamp = None, LabelValues = map snd ls, Points = [(t, v)]\<rparr>]\<rparr>)"

definition ref_Build :: "ref_builder \<Rightarrow> ref_builder \<times> (error + (int \<times> float64) OCMetric list)" where
  "ref_Build b =
     (if rb_points b = [] then (b, Inl errNoDataToBuild)
      else (b, Inr (map (ref_metric (rb_types b)) (rb_points b))))"

text \<open>
  Modelled from the spec: the OpenCensus translator is not in transaction.go and the
  specification says only that the batch is "resource-tagged". Here a batch is one
  resource with one library; gauges and cumulative metrics become number points that
  carry their start timestamp in nanoseconds, other metrics carry no data.
\<close>

definition ref_point :: "Timestamp option \<Rightarrow> int \<times> float64 \<Rightarrow> NumberDataPoint" where
  "ref_point start p =
     \<lparr>Attributes_n = [],
      StartTimestamp_n = (case start of None \<Rightarrow> 0
                          | Some ts \<Rightarrow> Seconds ts * 1000000000 + scast (Nanos ts)),
      Timestamp_n = word_of_int (fst p) * 1000000, Value_n = AsDouble (snd p), Flags_n = 0\<rparr>"

definition ref_points :: "(int \<times> float64) OCMetric \<Rightarrow> NumberDataPoint list" where
  "ref_points m = concat (map (\<lambda>ts. map (ref_point (StartTimestamp ts)) (Points ts)) (Timeseries m))"

definition ref_pmetric :: "(int \<times> float64) OCMetric \<Rightarrow> PMetric" where
  "ref_pmetric m =
     \<lparr>Name_m = (case MetricDescriptor m of None \<Rightarrow> '''' | Some d \<Rightarrow> md_Name d),
      Data_m = (case GetType (MetricDescriptor m) of
                  GAUGE_DOUBLE \<Rightarrow> MetricDataTypeGauge (ref_points m)
                | CUMULATIVE_DOUBLE \<Rightarrow> MetricDataTypeSum (ref_points m)
                | _ \<Rightarrow> MetricDataTypeNone)\<rparr>"

definition ref_OCToMetrics ::
  "Node option \<Rightarrow> Resource option \<Rightarrow> (int \<times> float64) OCMetric list \<Rightarrow> pdata_Metrics" where
  "ref_OCToMetrics n r metrics =
     [\<lparr>Attributes_r = (case r of None \<Rightarrow> [] | Some r' \<Rightarrow> Labels r'),
       InstrumentationLibraryMetrics = [\<lparr>Metrics = map ref_pmetric metrics\<rparr>]\<rparr>]"

text \<open>
  Modelled from the spec: the JobsMap and its adjuster are not in transaction.go. The
  map is "looked up/created under (job, instance)"; here an entry remembers the batch
  it was last given, the batch goes through unchanged, and a nil map is a panic.
\<close>

type_synonym ref_jobsMap = "((string \<times> string) \<times> pdata_Metrics option) list"

definition ref_AdjustMetrics ::
  "ref_jobsMap option \<Rightarrow> string \<Rightarrow> string \<Rightarrow> pdata_Metrics option
     \<Rightarrow> error + (ref_jobsMap option \<times> pdata_Metrics option)" where
  "ref_AdjustMetrics jm job' instance' md =
     (case jm of
        None \<Rightarrow> Inl panicNilDereference
      | Some m \<Rightarrow> Inr (Some (((job', instance'), md) # filter (\<lambda>e. fst e \<noteq> (job', instance')) m), md))"

text \<open>\<open>net.SplitHostPort\<close> on the addresses used here: host and port around the last colon.\<close>

definition ref_SplitHostPort :: "string \<Rightarrow> error + (string \<times> string)" where
  "ref_SplitHostPort hostport =
     (if CHR '':'' \<in> set hostport
      then Inr (rev (tl (dropWhile (\<lambda>c. c \<noteq> CHR '':'') (rev hostport))),
                rev (takeWhile (\<lambda>c. c \<noteq> CHR '':'') (rev hostport)))
      else Inl (errCollaborator ''missing port in address''))"

definition ref_collaborators ::
  "(ref_builder, ref_jobsMap, ref_cache, int \<times> float64) collaborators" where
  "ref_collaborators =
     \<lparr>SplitHostPort = ref_SplitHostPort,
      isDiscernibleHost = (\<lambda>host. host \<noteq> '''' \<and> host \<noteq> ''localhost''),
      SharedLabels = rc_sharedLabels,
      newMetricBuilder = ref_newMetricBuilder,
      AddDataPoint = ref_AddDataPoint,
      Build = ref_Build,
      startTime = rb_startTime,
      OCToMetrics = ref_OCToMetrics,
      AdjustMetrics = ref_AdjustMetrics,
      int64_unrepresentable = (\<lambda>x. 0x8000000000000000)\<rparr>"

text \<open>
  A metadata service that knows the target \<open>node\<close> at \<open>example.org:9100\<close>, a sink that
  accepts every batch, and fresh transactions for that target in either mode.
\<close>

definition ref_cache_node :: ref_cache where
  "ref_cache_node =
     \<lparr>rc_types = [(''up'', GAUGE_DOUBLE), (''http_requests_total'', CUMULATIVE_DOUBLE),
                  (''process_start_time_seconds'', GAUGE_DOUBLE)],
      rc_sharedLabels = [(''__scheme__'', ''http'')]\<rparr>"

definition ref_ms :: "string \<Rightarrow> string \<Rightarrow> error + ref_cache" where
  "ref_ms job' instance' =
     (if job' = ''node'' \<and> instance' = ''example.org:9100''
      then Inr ref_cache_node
      else Inl (errCollaborator ''unable to find a target''))"

definition ref_sink :: "pdata_Metrics option \<Rightarrow> error option" where
  "ref_sink md = None"

definition ref_transaction :: "Context \<Rightarrow> bool \<Rightarrow> (ref_builder, ref_jobsMap, ref_cache) transaction" where
  "ref_transaction c useStartTimeMetric' =
     fst (newTransaction 0 c (if useStartTimeMetric' then None else Some []) useStartTimeMetric'
            ''process_start_time_seconds'' ref_ms ref_sink [])"

definition ref_labels :: "string \<Rightarrow> labels" where
  "ref_labels metricName =
     [(''__name__'', metricName), (''instance'', ''example.org:9100''), (''job'', ''node'')]"

text \<open>The transaction of that target after a run of Append calls.\<close>

definition ref_run ::
  "Context \<Rightarrow> bool \<Rightarrow> sample list \<Rightarrow> (ref_builder, ref_jobsMap, ref_cache) transaction" where
  "ref_run c useStartTimeMetric' ss = Appends ref_collaborators (ref_transaction c useStartTimeMetric') ss"


text \<open>
  A batch with points of every kind: the stale marker, an ordinary NaN, the value 1
  and an integer among the numbers; a stale and a live histogram and summary.
\<close>

definition ref_number :: "NumberValue \<Rightarrow> NumberDataPoint" where
  "ref_number x =
     \<lparr>Attributes_n = [], StartTimestamp_n = 0, Timestamp_n = 1000000000, Value_n = x, Flags_n = 0\<rparr>"

definition ref_histogram_point :: "float64 \<Rightarrow> HistogramDataPoint" where
  "ref_histogram_point s =
     \<lparr>Attributes_h = [], StartTimestamp_h = 0, Timestamp_h = 1000000000, Count_h = 10, Sum_h = s,
      BucketCounts_h = [3, 4, 3], ExplicitBounds_h = [0x3FB999999999999A, 0x3FE0000000000000],
      Flags_h = 0\<rparr>"

definition ref_summary_point :: "float64 \<Rightarrow> SummaryDataPoint" where
  "ref_summary_point s =
     \<lparr>Attributes_s = [], StartTimestamp_s = 0, Timestamp_s = 1000000000, Count_s = 10, Sum_s = s,
      QuantileValues_s = [(0x3FE0000000000000, 0x3FF0000000000000)], Flags_s = 0\<rparr>"

definition ref_batch :: pdata_Metrics where
  "ref_batch =
     [\<lparr>Attributes_r = [(''job'', ''node'')],
       InstrumentationLibraryMetrics =
         [\<lparr>Metrics =
            [\<lparr>Name_m = ''up'',
              Data_m = MetricDataTypeGauge
                         [ref_number (AsDouble StaleNaN), ref_number (AsDouble NormalNaN),
                          ref_number (AsDouble 0x3FF0000000000000), ref_number (AsInt 7)]\<rparr>,
             \<lparr>Name_m = ''http_requests_total'',
              Data_m = MetricDataTypeSum [ref_number (AsDouble StaleNaN)]\<rparr>,
             \<lparr>Name_m = ''latency'',
              Data_m = MetricDataTypeHistogram
                         [ref_histogram_point StaleNaN, ref_histogram_point NormalNaN]\<rparr>,
             \<lparr>Name_m = ''rpc'',
              Data_m = MetricDataTypeSummary
                         [ref_summary_point StaleNaN, ref_summary_point 0x3FF0000000000000]\<rparr>,
             \<lparr>Name_m = ''exp'', Data_m = MetricDataTypeExponentialHistogram 2\<rparr>]\<rparr>]\<rparr>]"

text \<open>An OpenCensus metric of a given type with one timeseries that has no start timestamp yet.\<close>

definition ref_oc_metric :: "MetricDescriptor_Type \<Rightarrow> (int \<times> float64) OCMetric" where
  "ref_oc_metric ty =
     \<lparr>MetricDescriptor = Some \<lparr>md_Name = ''m'', md_Type = ty\<rparr>,
      Timeseries = [\<lparr>StartTimestamp = None, LabelValues = [], Points = [(1000, 0x3FF0000000000000)]\<rparr>]\<rparr>"

section \<open>Properties\<close>

subsection \<open>One call of Append\<close>

lemma initTransaction_result:
  "case initTransaction D tr ls of
     (tr', evs, None) \<Rightarrow> \<not> isNew tr' \<and> metricBuilder tr' \<noteq> None \<and> startTimeMs tr' = startTimeMs tr \<and>
                          count_list evs EvNewMetricBuilder = 1
   | (tr', evs, Some e) \<Rightarrow> tr' = tr \<and> count_list evs EvNewMetricBuilder = 0"
  by (simp add: initTransaction_def Let_def split: sum.splits prod.splits)

lemma Append_startTimeMs:
  "startTimeMs (fst (Append D tr r ls t v)) = (if startTimeMs tr < 0 then t else startTimeMs tr)"
proof -
  define tr1 where "tr1 = (if startTimeMs tr < 0 then tr\<lparr>startTimeMs := t\<rparr> else tr)"
  define ls1 where "ls1 = (if length (externalLabels tr1) > 0 then ls @ externalLabels tr1 else ls)"
  have s1: "startTimeMs tr1 = (if startTimeMs tr < 0 then t else startTimeMs tr)"
    by (simp add: tr1_def)
  obtain tr2 evs e where i: "initTransaction D tr1 ls1 = (tr2, evs, e)"
    by (cases "initTransaction D tr1 ls1") auto
  have s2: "startTimeMs tr2 = startTimeMs tr1"
    using initTransaction_result [where D = D and tr = tr1 and ls = ls1] i by (cases e) auto
  have "startTimeMs (fst (Append D tr r ls t v)) = startTimeMs tr1"
    unfolding Append_def Let_def tr1_def [symmetric] ls1_def [symmetric]
    using i s2 by (cases e) (simp_all split: option.splits prod.splits)
  then show ?thesis using s1 by simp
qed



lemma ref_transaction_fresh:
  "isNew (ref_transaction c u) \<and> ctx (ref_transaction c u) = c \<and> startTimeMs (ref_transaction c u) = - 1"
  by (simp add: ref_transaction_def newTransaction_def)

text \<open>
  Claim C1, as amended. Append on a transaction whose context is already cancelled fails
  with the aborted error, does nothing to the outside and leaves every field as it was
  except the start-time tracking: that one is written before the context is looked at,
  so it becomes the sample's timestamp if it was unset (negative) and stays otherwise.
\<close>

theorem Append_cancelled:
  assumes "Done (ctx tr)"
  shows "Append D tr r ls t v =
           (tr\<lparr>startTimeMs := (if startTimeMs tr < 0 then t else startTimeMs tr)\<rparr>, [], 0,
            Some errTransactionAborted)"
  using assms by (simp add: Append_def Let_def)

theorem Append_cancelled_witness:
  "Done (ctx (ref_transaction ctxCancelled False)) \<and>
   snd (Append ref_collaborators (ref_transaction ctxCancelled False) 0 (ref_labels ''up'') 1000 0)
     = ([], 0, Some errTransactionAborted) \<and>
   isNew (fst (Append ref_collaborators (ref_transaction ctxCancelled False) 0 (ref_labels ''up'') 1000 0))"
proof -
  have h: "Done (ctx (ref_transaction ctxCancelled False))"
    by (simp add: ref_transaction_fresh)
  have n: "isNew (ref_transaction ctxCancelled False)"
    by (simp add: ref_transaction_fresh)
  show ?thesis
    using h n Append_cancelled [OF h, of ref_collaborators 0 "ref_labels ''up''" 1000 0] by simp
qed

text \<open>
  Claim C1 as stated fails: on a fresh transaction with a cancelled context the call
  fails with the aborted error, yet the start-time tracking goes from -1 to the
  sample's timestamp, so the transaction is not what it was.
\<close>

theorem Append_cancelled_counterexample:
  "Done (ctx (ref_transaction ctxCancelled False)) \<and>
   snd (snd (snd (Append ref_collaborators (ref_transaction ctxCancelled False) 0 (ref_labels ''up'') 1000 0)))
     = Some errTransactionAborted \<and>
   startTimeMs (ref_transaction ctxCancelled False) = - 1 \<and>
   startTimeMs (fst (Append ref_collaborators (ref_transaction ctxCancelled False) 0 (ref_labels ''up'') 1000 0))
     = 1000 \<and>
   fst (Append ref_collaborators (ref_transaction ctxCancelled False) 0 (ref_labels ''up'') 1000 0)
     \<noteq> ref_transaction ctxCancelled False"
proof -
  have a: "Done (ctx (ref_transaction ctxCancelled False))"
    by (simp add: ref_transaction_fresh)
  have b: "startTimeMs (ref_transaction ctxCancelled False) = - 1"
    by (simp add: ref_transaction_fresh)
  have c: "Append ref_collaborators (ref_transaction ctxCancelled False) 0 (ref_labels ''up'') 1000 0 =
             ((ref_transaction ctxCancelled False)\<lparr>startTimeMs := 1000\<rparr>, [], 0, Some errTransactionAborted)"
    using a b by (simp add: Append_def Let_def)
  have d: "(ref_transaction ctxCancelled False)\<lparr>startTimeMs := 1000\<rparr> \<noteq> ref_transaction ctxCancelled False"
  proof
    assume "(ref_transaction ctxCancelled False)\<lparr>startTimeMs := 1000\<rparr> = ref_transaction ctxCancelled False"
    then have "startTimeMs ((ref_transaction ctxCancelled False)\<lparr>startTimeMs := 1000\<rparr>)
                 = startTimeMs (ref_transaction ctxCancelled False)"
      by simp
    then show False using b by simp
  qed
  show ?thesis using a b d by (simp add: c)
qed

text \<open>
  Claim C10. AppendExemplar returns series reference 0 and no error, does nothing to the
  outside and returns the transaction as it was, whatever the exemplar: so the
  builder is untouched and a later Commit is the Commit that would have happened
  without the call.
\<close>

theorem AppendExemplar_discards:
  "AppendExemplar tr r l e = (tr, [], 0, None) \<and>
   Commit D (fst (AppendExemplar tr r l e)) = Commit D tr"
  by (simp add: AppendExemplar_def)

subsection \<open>Commit\<close>

text \<open>
  Claim C5, as amended. Commit on a transaction whose \<open>isNew\<close> flag is still set, that
  is, on which no Append has got past \<open>initTransaction\<close>, returns success, leaves the
  transaction as it was and does nothing to the outside: no report, no build, no
  adjustment, nothing for the sink.
\<close>

theorem Commit_new:
  "isNew tr \<Longrightarrow> Commit D tr = (tr, [], None)"
  by (simp add: Commit_def)

lemma ref_run_no_job:
  "map (\<lambda>out. snd (snd (snd out)))
     (Append_outcomes ref_collaborators (ref_transaction ctxActive False) [([(''__name__'', ''up'')], 1000, 0)])
     = [Some errNoJobInstance] \<and>
   isNew (ref_run ctxActive False [([(''__name__'', ''up'')], 1000, 0)])"
  by code_simp

theorem Commit_new_witness:
  "map (\<lambda>out. snd (snd (snd out)))
     (Append_outcomes ref_collaborators (ref_transaction ctxActive False) [([(''__name__'', ''up'')], 1000, 0)])
     = [Some errNoJobInstance] \<and>
   isNew (ref_run ctxActive False [([(''__name__'', ''up'')], 1000, 0)]) \<and>
   snd (Commit ref_collaborators (ref_run ctxActive False [([(''__name__'', ''up'')], 1000, 0)])) = ([], None)"
proof -
  have h: "isNew (ref_run ctxActive False [([(''__name__'', ''up'')], 1000, 0)])"
    using ref_run_no_job by simp
  show ?thesis using ref_run_no_job Commit_new [OF h, of ref_collaborators] by simp
qed

text \<open>
  Claim C5 as stated fails: "no Append ever succeeded" does not keep a transaction new.
  The one Append of this run fails in the builder, after \<open>initTransaction\<close> has cleared
  \<open>isNew\<close>; Commit then starts a report, builds, and returns the no-data-to-build error.
\<close>

theorem Commit_new_counterexample:
  "map (\<lambda>out. snd (snd (snd out)))
     (Append_outcomes ref_collaborators (ref_transaction ctxActive False) [(ref_labels '''', 1000, 0)])
     = [Some errMetricNameNotFound] \<and>
   \<not> isNew (ref_run ctxActive False [(ref_labels '''', 1000, 0)]) \<and>
   Commit ref_collaborators (ref_run ctxActive False [(ref_labels '''', 1000, 0)])
     \<noteq> (ref_run ctxActive False [(ref_labels '''', 1000, 0)], [], None) \<and>
   snd (Commit ref_collaborators (ref_run ctxActive False [(ref_labels '''', 1000, 0)]))
     = ([EvStartMetricsOp, EvBuild, EvEndMetricsOp 0 (Some errNoDataToBuild)], Some errNoDataToBuild)"
proof -
  have a: "map (\<lambda>out. snd (snd (snd out)))
     (Append_outcomes ref_collaborators (ref_transaction ctxActive False) [(ref_labels '''', 1000, 0)])
     = [Some errMetricNameNotFound]"
    by code_simp
  have b: "\<not> isNew (ref_run ctxActive False [(ref_labels '''', 1000, 0)])"
    by code_simp
  have c: "snd (Commit ref_collaborators (ref_run ctxActive False [(ref_labels '''', 1000, 0)]))
     = ([EvStartMetricsOp, EvBuild, EvEndMetricsOp 0 (Some errNoDataToBuild)], Some errNoDataToBuild)"
    by code_simp
  have d: "Commit ref_collaborators (ref_run ctxActive False [(ref_labels '''', 1000, 0)])
     \<noteq> (ref_run ctxActive False [(ref_labels '''', 1000, 0)], [], None)"
  proof
    assume "Commit ref_collaborators (ref_run ctxActive False [(ref_labels '''', 1000, 0)])
              = (ref_run ctxActive False [(ref_labels '''', 1000, 0)], [], None)"
    then have "snd (Commit ref_collaborators (ref_run ctxActive False [(ref_labels '''', 1000, 0)]))
                 = ([], None)"
      by simp
    then show False using c by simp
  qed
  show ?thesis using a b c d by simp
qed

text \<open>
  Claim C2, as amended. When the builder of an initialized transaction has nothing to
  build, Commit reports 0 points together with the builder's error, runs no adjustment,
  gives nothing to the sink, and returns that error to its caller.
\<close>

theorem Commit_no_data:
  assumes "\<not> isNew tr" and "metricBuilder tr = Some b" and "Build D b = (b', Inl errNoDataToBuild)"
  shows "Commit D tr =
           (tr\<lparr>startTimeMs := - 1, metricBuilder := Some b'\<rparr>,
            [EvStartMetricsOp, EvBuild, EvEndMetricsOp 0 (Some errNoDataToBuild)],
            Some errNoDataToBuild)"
  using assms by (simp add: Commit_def Let_def)

lemma ref_run_unnamed:
  "\<not> isNew (ref_run ctxActive False [(ref_labels '''', 1000, 0)]) \<and>
   metricBuilder (ref_run ctxActive False [(ref_labels '''', 1000, 0)])
     = Some (ref_newMetricBuilder ref_cache_node False ''process_start_time_seconds'' 1000)"
  by code_simp

theorem Commit_no_data_witness:
  "\<not> isNew (ref_run ctxActive False [(ref_labels '''', 1000, 0)]) \<and>
   snd (Commit ref_collaborators (ref_run ctxActive False [(ref_labels '''', 1000, 0)]))
     = ([EvStartMetricsOp, EvBuild, EvEndMetricsOp 0 (Some errNoDataToBuild)], Some errNoDataToBuild)"
proof -
  have h1: "\<not> isNew (ref_run ctxActive False [(ref_labels '''', 1000, 0)])"
    and h2: "metricBuilder (ref_run ctxActive False [(ref_labels '''', 1000, 0)])
               = Some (ref_newMetricBuilder ref_cache_node False ''process_start_time_seconds'' 1000)"
    using ref_run_unnamed by simp_all
  have h3: "Build ref_collaborators (ref_newMetricBuilder ref_cache_node False ''process_start_time_seconds'' 1000)
              = (ref_newMetricBuilder ref_cache_node False ''process_start_time_seconds'' 1000,
                 Inl errNoDataToBuild)"
    by (simp add: ref_collaborators_def ref_Build_def ref_newMetricBuilder_def)
  show ?thesis using h1 Commit_no_data [OF h1 h2 h3] by simp
qed

text \<open>
  Claim C2 as stated fails: a transaction initialized by a sample that has no metric
  name holds a builder with zero data points, and Commit on it returns the
  no-data-to-build error, not success.
\<close>

theorem Commit_no_data_counterexample:
  "\<not> isNew (ref_run ctxActive False [(ref_labels '''', 1000, 0)]) \<and>
   map_option rb_points (metricBuilder (ref_run ctxActive False [(ref_labels '''', 1000, 0)])) = Some [] \<and>
   snd (snd (Commit ref_collaborators (ref_run ctxActive False [(ref_labels '''', 1000, 0)])))
     = Some errNoDataToBuild \<and>
   snd (snd (Commit ref_collaborators (ref_run ctxActive False [(ref_labels '''', 1000, 0)]))) \<noteq> None"
  by code_simp

text \<open>
  Claim C3. In start-time-metric mode, when the builder has built a batch and its start
  time is zero (the designated metric was absent, or reported zero), Commit fails with
  the missing-start-time error, reports 0 points with that error, and the sink's
  consume is not invoked: the whole batch is dropped.
\<close>

theorem Commit_missing_start_time:
  assumes "useStartTimeMetric tr" and "\<not> isNew tr" and "metricBuilder tr = Some b"
    and "Build D b = (b', Inr metrics)" and "f64_is_zero (startTime D b')"
  shows "Commit D tr =
           (tr\<lparr>startTimeMs := - 1, metricBuilder := Some b'\<rparr>,
            [EvStartMetricsOp, EvBuild, EvEndMetricsOp 0 (Some errNoStartTimeMetrics)],
            Some errNoStartTimeMetrics) \<and>
         \<not> list_ex isConsumeMetrics (fst (snd (Commit D tr)))"
  using assms by (simp add: Commit_def Let_def)

lemma ref_run_up_start_time_mode:
  "useStartTimeMetric (ref_run ctxActive True [(ref_labels ''up'', 1000, 0x3FF0000000000000)]) \<and>
   \<not> isNew (ref_run ctxActive True [(ref_labels ''up'', 1000, 0x3FF0000000000000)]) \<and>
   metricBuilder (ref_run ctxActive True [(ref_labels ''up'', 1000, 0x3FF0000000000000)])
     = Some ((ref_newMetricBuilder ref_cache_node True ''process_start_time_seconds'' 1000)
               \<lparr>rb_points := [(ref_labels ''up'', 1000, 0x3FF0000000000000)]\<rparr>)"
  by code_simp

lemma ref_Build_up:
  "Build ref_collaborators
     ((ref_newMetricBuilder ref_cache_node True ''process_start_time_seconds'' 1000)
        \<lparr>rb_points := [(ref_labels ''up'', 1000, 0x3FF0000000000000)]\<rparr>)
   = ((ref_newMetricBuilder ref_cache_node True ''process_start_time_seconds'' 1000)
        \<lparr>rb_points := [(ref_labels ''up'', 1000, 0x3FF0000000000000)]\<rparr>,
      Inr [ref_metric (rc_types ref_cache_node) (ref_labels ''up'', 1000, 0x3FF0000000000000)])"
  by (simp add: ref_collaborators_def ref_Build_def ref_newMetricBuilder_def)

lemma ref_startTime_up:
  "f64_is_zero (startTime ref_collaborators
     ((ref_newMetricBuilder ref_cache_node True ''process_start_time_seconds'' 1000)
        \<lparr>rb_points := [(ref_labels ''up'', 1000, 0x3FF0000000000000)]\<rparr>))"
  by (simp add: ref_collaborators_def ref_newMetricBuilder_def f64_is_zero_def)

theorem Commit_missing_start_time_witness:
  "useStartTimeMetric (ref_run ctxActive True [(ref_labels ''up'', 1000, 0x3FF0000000000000)]) \<and>
   \<not> isNew (ref_run ctxActive True [(ref_labels ''up'', 1000, 0x3FF0000000000000)]) \<and>
   snd (Commit ref_collaborators (ref_run ctxActive True [(ref_labels ''up'', 1000, 0x3FF0000000000000)]))
     = ([EvStartMetricsOp, EvBuild, EvEndMetricsOp 0 (Some errNoStartTimeMetrics)],
        Some errNoStartTimeMetrics)"
proof -
  note h = ref_run_up_start_time_mode
  have h1: "useStartTimeMetric (ref_run ctxActive True [(ref_labels ''up'', 1000, 0x3FF0000000000000)])"
    and h2: "\<not> isNew (ref_run ctxActive True [(ref_labels ''up'', 1000, 0x3FF0000000000000)])"
    and h3: "metricBuilder (ref_run ctxActive True [(ref_labels ''up'', 1000, 0x3FF0000000000000)])
     = Some ((ref_newMetricBuilder ref_cache_node True ''process_start_time_seconds'' 1000)
               \<lparr>rb_points := [(ref_labels ''up'', 1000, 0x3FF0000000000000)]\<rparr>)"
    using h by simp_all
  show ?thesis
    using h1 h2 Commit_missing_start_time [OF h1 h2 h3 ref_Build_up ref_startTime_up] by simp
qed

subsection \<open>The staleness fixer\<close>

text \<open>An index loop that rewrites each element in place is a map.\<close>

lemma for_At_take_drop: "for_At f i xs = take i xs @ map f (drop i xs)"
proof (induction f i xs rule: for_At.induct)
  case (1 body i xs)
  show ?case
  proof (cases "i < length xs")
    case True
    have "for_At body i xs = for_At body (Suc i) (xs[i := body (xs ! i)])"
      using True by (subst for_At.simps) simp
    also have "\<dots> = take (Suc i) (xs[i := body (xs ! i)]) @ map body (drop (Suc i) (xs[i := body (xs ! i)]))"
      using "1.IH" True by simp
    also have "\<dots> = take i xs @ body (xs ! i) # map body (drop (Suc i) xs)"
      using True by (simp add: take_Suc_conv_app_nth)
    also have "\<dots> = take i xs @ map body (drop i xs)"
      using True by (simp add: Cons_nth_drop_Suc [symmetric])
    finally show ?thesis .
  next
    case False
    then show ?thesis by (subst for_At.simps) simp
  qed
qed

lemma for_At_map: "for_At f 0 xs = map f xs"
  by (simp add: for_At_take_drop)

lemma list_all2_map_self: "(\<And>x. x \<in> set xs \<Longrightarrow> P x (f x)) \<Longrightarrow> list_all2 P xs (map f xs)"
  by (simp add: list_all2_map2 list_all2_same)

lemma fixStaleGauge_spec: "list_all2 spec_fixed_number g (fixStaleGauge g)"
  unfolding fixStaleGauge_def for_At_map
  by (rule list_all2_map_self) (simp add: spec_fixed_number_def IsStaleNaN_def SetDoubleVal_def)

lemma fixStaleSum_spec: "list_all2 spec_fixed_number g (fixStaleSum g)"
  unfolding fixStaleSum_def for_At_map
  by (rule list_all2_map_self) (simp add: spec_fixed_number_def IsStaleNaN_def SetDoubleVal_def)

lemma fixStaleHistogram_spec: "list_all2 spec_fixed_histogram h (fixStaleHistogram h)"
  unfolding fixStaleHistogram_def for_At_map
  by (rule list_all2_map_self) (simp add: spec_fixed_histogram_def IsStaleNaN_def)

lemma fixStaleSummary_spec: "list_all2 spec_fixed_summary s (fixStaleSummary s)"
  unfolding fixStaleSummary_def for_At_map
  by (rule list_all2_map_self) (simp add: spec_fixed_summary_def IsStaleNaN_def)

lemma fixStaleMetric_spec: "spec_fixed_metric m (fixStaleMetric m)"
  by (cases "Data_m m")
     (simp_all add: spec_fixed_metric_def fixStaleMetric_def fixStaleGauge_spec fixStaleSum_spec
        fixStaleHistogram_spec fixStaleSummary_spec)

text \<open>
  Claim C6. In a batch that went through the staleness fixer, every gauge, sum,
  histogram and summary point whose value (its sum, for a histogram or a summary) is
  exactly the stale marker is flagged stale and has its value, count, sum, bucket
  counts, bounds or quantile list zeroed or emptied as its type has them; every other
  point, an ordinary NaN included, is what it was; the batch keeps its resources,
  libraries, metrics and their order.
\<close>

theorem fixStaleMetrics_spec: "spec_fixed_batch md (fixStaleMetrics md)"
  unfolding spec_fixed_batch_def fixStaleMetrics_def for_At_map
  by (intro list_all2_map_self conjI) (simp_all add: list_all2_map2 list_all2_same fixStaleMetric_spec)

lemma ref_batch_fixed:
  "fixStaleMetrics ref_batch =
     [\<lparr>Attributes_r = [(''job'', ''node'')],
       InstrumentationLibraryMetrics =
         [\<lparr>Metrics =
            [\<lparr>Name_m = ''up'',
              Data_m = MetricDataTypeGauge
                         [(ref_number (AsDouble 0))\<lparr>Flags_n := 1\<rparr>, ref_number (AsDouble NormalNaN),
                          ref_number (AsDouble 0x3FF0000000000000), ref_number (AsInt 7)]\<rparr>,
             \<lparr>Name_m = ''http_requests_total'',
              Data_m = MetricDataTypeSum [(ref_number (AsDouble 0))\<lparr>Flags_n := 1\<rparr>]\<rparr>,
             \<lparr>Name_m = ''latency'',
              Data_m = MetricDataTypeHistogram
                         [(ref_histogram_point 0)\<lparr>Flags_h := 1, Count_h := 0, BucketCounts_h := [],
                                                   ExplicitBounds_h := []\<rparr>,
                          ref_histogram_point NormalNaN]\<rparr>,
             \<lparr>Name_m = ''rpc'',
              Data_m = MetricDataTypeSummary
                         [(ref_summary_point 0)\<lparr>Flags_s := 1, Count_s := 0, QuantileValues_s := []\<rparr>,
                          ref_summary_point 0x3FF0000000000000]\<rparr>,
             \<lparr>Name_m = ''exp'', Data_m = MetricDataTypeExponentialHistogram 2\<rparr>]\<rparr>]\<rparr>]"
  by code_simp

theorem fixStaleMetrics_spec_witness:
  "spec_fixed_batch ref_batch (fixStaleMetrics ref_batch) \<and>
   DoubleVal (ref_number (AsDouble StaleNaN)) = StaleNaN \<and>
   DoubleVal (ref_number (AsDouble NormalNaN)) \<noteq> StaleNaN \<and>
   map Data_m (Metrics (hd (InstrumentationLibraryMetrics (hd (fixStaleMetrics ref_batch))))) =
     [MetricDataTypeGauge
        [(ref_number (AsDouble 0))\<lparr>Flags_n := 1\<rparr>, ref_number (AsDouble NormalNaN),
         ref_number (AsDouble 0x3FF0000000000000), ref_number (AsInt 7)],
      MetricDataTypeSum [(ref_number (AsDouble 0))\<lparr>Flags_n := 1\<rparr>],
      MetricDataTypeHistogram
        [(ref_histogram_point 0)\<lparr>Flags_h := 1, Count_h := 0, BucketCounts_h := [],
                                  ExplicitBounds_h := []\<rparr>,
         ref_histogram_point NormalNaN],
      MetricDataTypeSummary
        [(ref_summary_point 0)\<lparr>Flags_s := 1, Count_s := 0, QuantileValues_s := []\<rparr>,
         ref_summary_point 0x3FF0000000000000],
      MetricDataTypeExponentialHistogram 2]"
proof -
  have a: "spec_fixed_batch ref_batch (fixStaleMetrics ref_batch)"
    by (rule fixStaleMetrics_spec)
  have v1: "DoubleVal (ref_number (AsDouble StaleNaN)) = StaleNaN"
    by (simp add: DoubleVal_def ref_number_def)
  have v2: "DoubleVal (ref_number (AsDouble NormalNaN)) \<noteq> StaleNaN"
    by (simp add: DoubleVal_def ref_number_def StaleNaN_def NormalNaN_def)
  have c: "map Data_m (Metrics (hd (InstrumentationLibraryMetrics (hd (fixStaleMetrics ref_batch))))) =
     [MetricDataTypeGauge
        [(ref_number (AsDouble 0))\<lparr>Flags_n := 1\<rparr>, ref_number (AsDouble NormalNaN),
         ref_number (AsDouble 0x3FF0000000000000), ref_number (AsInt 7)],
      MetricDataTypeSum [(ref_number (AsDouble 0))\<lparr>Flags_n := 1\<rparr>],
      MetricDataTypeHistogram
        [(ref_histogram_point 0)\<lparr>Flags_h := 1, Count_h := 0, BucketCounts_h := [],
                                  ExplicitBounds_h := []\<rparr>,
         ref_histogram_point NormalNaN],
      MetricDataTypeSummary
        [(ref_summary_point 0)\<lparr>Flags_s := 1, Count_s := 0, QuantileValues_s := []\<rparr>,
         ref_summary_point 0x3FF0000000000000],
      MetricDataTypeExponentialHistogram 2]"
    unfolding ref_batch_fixed by simp
  from a v1 v2 c show ?thesis by (intro conjI)
qed

subsection \<open>Sequences of Append calls\<close>

lemma Appends_startTimeMs:
  "startTimeMs (Appends D tr ss) =
     (if 0 \<le> startTimeMs tr then startTimeMs tr
      else case find (\<lambda>t. 0 \<le> t) (map (\<lambda>s. fst (snd s)) ss) of
             Some t \<Rightarrow> t
           | None \<Rightarrow> last (startTimeMs tr # map (\<lambda>s. fst (snd s)) ss))"
proof (induction ss arbitrary: tr)
  case Nil
  then show ?case by simp
next
  case (Cons s ss)
  obtain ls t v where s: "s = (ls, t, v)" by (cases s)
  show ?case
    unfolding s
    by (simp add: Cons.IH Append_startTimeMs split: option.splits)
qed

text \<open>
  Claim C9, as amended. The start-time tracking keeps the first timestamp observed, not
  the smallest. After any sequence of Append calls, whether they succeed or fail: a
  value already recorded (non-negative) is kept; from the unset state the value is the
  first non-negative timestamp of the sequence, whatever comes later; and if every
  timestamp is negative the value is the last of them, still taken as unset. So after
  Appends with non-negative timestamps \<open>t1, ..., tn\<close> on a fresh transaction it is
  \<open>t1\<close>.
\<close>

theorem Appends_first_timestamp:
  "startTimeMs (Appends D tr ss) =
     (if 0 \<le> startTimeMs tr then startTimeMs tr
      else case find (\<lambda>t. 0 \<le> t) (map (\<lambda>s. fst (snd s)) ss) of
             Some t \<Rightarrow> t
           | None \<Rightarrow> last (startTimeMs tr # map (\<lambda>s. fst (snd s)) ss)) \<and>
   (startTimeMs tr < 0 \<longrightarrow> ss \<noteq> [] \<longrightarrow> (\<forall>s \<in> set ss. 0 \<le> fst (snd s)) \<longrightarrow>
      startTimeMs (Appends D tr ss) = fst (snd (hd ss)))"
proof -
  have first: "startTimeMs (Appends D tr ss) = fst (snd (hd ss))"
    if unset: "startTimeMs tr < 0" and ne: "ss \<noteq> []" and nonneg: "\<forall>s \<in> set ss. 0 \<le> fst (snd s)"
  proof -
    obtain s rest where ss: "ss = s # rest"
      using ne by (cases ss) auto
    then have "0 \<le> fst (snd s)"
      using nonneg by simp
    then show ?thesis
      using unset by (simp add: Appends_startTimeMs ss)
  qed
  then show ?thesis using Appends_startTimeMs [of D tr ss] by blast
qed

theorem Appends_first_timestamp_witness:
  "startTimeMs (ref_transaction ctxActive False) < 0 \<and>
   (0::int) \<le> 2000 \<and> (0::int) \<le> 1000 \<and>
   startTimeMs (Appends ref_collaborators (ref_transaction ctxActive False)
      [(ref_labels ''up'', 2000, 0x3FF0000000000000), (ref_labels ''up'', 1000, 0x3FF0000000000000)]) = 2000"
  using Appends_first_timestamp [of ref_collaborators "ref_transaction ctxActive False"
      "[(ref_labels ''up'', 2000, 0x3FF0000000000000), (ref_labels ''up'', 1000, 0x3FF0000000000000)]"]
  by (simp add: ref_transaction_fresh)

text \<open>
  Claim C9 as stated fails: after two successful Appends with timestamps 2000 and 1000
  on a fresh transaction, the recorded value is 2000, while the minimum is 1000.
\<close>

theorem Appends_minimum_counterexample:
  "map (\<lambda>out. snd (snd (snd out)))
     (Append_outcomes ref_collaborators (ref_transaction ctxActive False)
        [(ref_labels ''up'', 2000, 0x3FF0000000000000), (ref_labels ''up'', 1000, 0x3FF0000000000000)])
     = [None, None] \<and>
   startTimeMs (Appends ref_collaborators (ref_transaction ctxActive False)
      [(ref_labels ''up'', 2000, 0x3FF0000000000000), (ref_labels ''up'', 1000, 0x3FF0000000000000)]) = 2000 \<and>
   Min (set (map (\<lambda>s. fst (snd s))
      [(ref_labels ''up'', 2000, 0x3FF0000000000000), (ref_labels ''up'', 1000, 0x3FF0000000000000 :: float64)]))
     = (1000 :: int) \<and>
   startTimeMs (Appends ref_collaborators (ref_transaction ctxActive False)
      [(ref_labels ''up'', 2000, 0x3FF0000000000000), (ref_labels ''up'', 1000, 0x3FF0000000000000)])
     \<noteq> Min (set (map (\<lambda>s. fst (snd s))
      [(ref_labels ''up'', 2000, 0x3FF0000000000000), (ref_labels ''up'', 1000, 0x3FF0000000000000 :: float64)]))"
proof -
  have a: "map (\<lambda>out. snd (snd (snd out)))
     (Append_outcomes ref_collaborators (ref_transaction ctxActive False)
        [(ref_labels ''up'', 2000, 0x3FF0000000000000), (ref_labels ''up'', 1000, 0x3FF0000000000000)])
     = [None, None]"
    by code_simp
  have b: "startTimeMs (Appends ref_collaborators (ref_transaction ctxActive False)
      [(ref_labels ''up'', 2000, 0x3FF0000000000000), (ref_labels ''up'', 1000, 0x3FF0000000000000)]) = 2000"
    by code_simp
  show ?thesis using a b by simp
qed










end
